theory Spec2Isabelle
  imports Main "HOL-Library.List_Lexorder" "HOL-Library.Char_ord"
begin

section \<open>The session package of gosdk: data model\<close>

text \<open>
  A shallow embedding of \<^verbatim>\<open>src/mobingi/session/session.go\<close>. Strings are Go strings
  (byte lists), \<^verbatim>\<open>int\<close> values are integers (no arithmetic on them can overflow here:
  the only operation is one division by 100), a nil-able pointer is an \<open>option\<close>.
\<close>

subsection \<open>Constants (lines 17-21)\<close>

definition BASE_API_URL :: string where
  "BASE_API_URL = ''https://api.mobingi.com''"

definition BASE_REGISTRY_URL :: string where
  "BASE_REGISTRY_URL = ''https://registry.mobingi.com''"

definition SESHA3_URL :: string where
  "SESHA3_URL = ''https://sesha3.mobingi.com''"

subsection \<open>Structs (lines 23-87)\<close>

text \<open>
  \<^verbatim>\<open>authPayload\<close>: \<^verbatim>\<open>Username\<close> and \<^verbatim>\<open>Password\<close> have type \<^verbatim>\<open>interface{}\<close>; the source
  only ever stores a string in them, so they are \<open>None\<close> (the nil interface) or
  \<open>Some s\<close> (an interface holding the string \<open>s\<close>, also when \<open>s\<close> is empty).
\<close>

record authPayload =
  ClientId :: string
  ClientSecret :: string
  GrantType :: string
  Scope :: string
  Username :: "string option"
  Password :: "string option"

text \<open>
  \<^verbatim>\<open>Config\<close>: \<open>'h\<close> stands for \<^verbatim>\<open>httpclient.Config\<close>, whose declaration is in another
  package; \<^verbatim>\<open>HttpClientConfig\<close> is a pointer to one.
\<close>

record 'h Config =
  ClientId :: string
  ClientSecret :: string
  GrantType :: string
  Scope :: string
  Username :: string
  Password :: string
  AccessToken :: string
  ApiVersion :: int
  BaseApiUrl :: string
  BaseRegistryUrl :: string
  Sesha3Url :: string
  UseForm :: bool
  HttpClientConfig :: "'h option"

text \<open>
  \<^verbatim>\<open>Session\<close> holds a pointer to its \<^verbatim>\<open>Config\<close>; \<^verbatim>\<open>New\<close> allocates that config itself and
  hands the pointer to nobody else, so the session owns the value and a write through
  the pointer is an update of the field \<open>Config\<close>.
\<close>

record 'h Session =
  Config :: "'h Config"
  AccessToken :: string

subsection \<open>Errors\<close>

text \<open>
  The error values the package builds: \<^verbatim>\<open>errors.New\<close>, \<^verbatim>\<open>fmt.Errorf\<close> (only ever called
  with a constant text), \<^verbatim>\<open>errors.Wrap\<close> of github.com/pkg/errors, and the errors that
  come out of net/http, encoding/json and httpclient, known by their message only.
\<close>

datatype error =
    errors_New string
  | fmt_Errorf string
  | errors_Wrap error string
  | External string

text \<open>The \<^verbatim>\<open>Error()\<close> method: a wrapped error reads \<^verbatim>\<open>message: cause\<close>.\<close>

fun Error :: "error \<Rightarrow> string" where
  "Error (errors_New m) = m"
| "Error (fmt_Errorf m) = m"
| "Error (errors_Wrap err m) = m @ '': '' @ Error err"
| "Error (External m) = m"

subsection \<open>HTTP requests and responses\<close>

text \<open>
  \<^verbatim>\<open>http.Header\<close> is a map from a key to the list of its values, here an association
  list with one entry per key. \<^verbatim>\<open>Header.Add\<close> appends to the key's values. (It first
  puts the key in canonical form; the two keys the package uses, \<^verbatim>\<open>Authorization\<close> and
  \<^verbatim>\<open>Content-Type\<close>, are canonical already.)
\<close>

type_synonym Header = "(string \<times> string list) list"

fun Header_Add :: "Header \<Rightarrow> string \<Rightarrow> string \<Rightarrow> Header" where
  "Header_Add [] k v = [(k, [v])]"
| "Header_Add ((k', vs) # h) k v =
     (if k' = k then (k', vs @ [v]) # h else (k', vs) # Header_Add h k v)"

definition Header_Values :: "Header \<Rightarrow> string \<Rightarrow> string list" where
  "Header_Values h k = (case map_of h k of None \<Rightarrow> [] | Some vs \<Rightarrow> vs)"

record 'b Request =
  Method :: string
  URL :: string
  Header :: Header
  Body :: 'b

record Response =
  Status :: string
  StatusCode :: int

text \<open>\<^verbatim>\<open>url.Values\<close>, filled by \<^verbatim>\<open>form.Add\<close>: the pairs in the order they were added.\<close>

type_synonym Values = "(string \<times> string) list"

text \<open>
  The body of the JSON request is \<^verbatim>\<open>json.Marshal(p)\<close>: the members of the JSON object,
  in struct order, every value a string. (The bytes add quoting and escaping only.)
\<close>

type_synonym payload = "(string \<times> string) list"

subsection \<open>Values decoded from JSON\<close>

text \<open>
  What \<^verbatim>\<open>json.Unmarshal\<close> stores in an \<^verbatim>\<open>interface{}\<close>: nil, a bool, a float64 (kept
  abstract as \<open>'f\<close>), a string, a slice, or a map with string keys (an association list
  with distinct keys).
\<close>

datatype 'f go_value =
    VNil
  | VBool bool
  | VFloat64 'f
  | VString string
  | VSlice "'f go_value list"
  | VMap "(string \<times> 'f go_value) list"

subsection \<open>The world outside the package\<close>

text \<open>
  Everything the package calls and does not define: the process environment,
  \<^verbatim>\<open>net/http\<close>, the \<^verbatim>\<open>httpclient\<close> package, \<^verbatim>\<open>encoding/json\<close> decoding and the
  formatting of a float64.
  \<^item> \<open>Getenv\<close> is \<^verbatim>\<open>os.Getenv\<close>.
  \<^item> \<open>NewRequest_err m u\<close> is the error of \<^verbatim>\<open>http.NewRequest(m, u, body)\<close>, if any; it
    depends on the method and the URL only.
  \<^item> \<open>PostForm u form\<close> is \<^verbatim>\<open>http.PostForm\<close> followed by \<^verbatim>\<open>ioutil.ReadAll\<close> of the
    response body (the source drops the error of \<^verbatim>\<open>ReadAll\<close>, line 152): an error, or
    the response and the bytes read.
  \<^item> \<open>Do cfg r\<close> is \<^verbatim>\<open>httpclient.NewSimpleHttpClient(cfg).Do(r)\<close>, with no argument
    when \<open>cfg\<close> is \<open>None\<close>: an error, or the response and its body.
  \<^item> \<open>Unmarshal body\<close> is \<^verbatim>\<open>json.Unmarshal(body, &m)\<close> for a
    \<^verbatim>\<open>map[string]interface{}\<close>: an error, or the map.
  \<^item> \<open>FormatFloat\<close> is how \<^verbatim>\<open>fmt\<close> prints a float64 under the verb \<^verbatim>\<open>%v\<close>.
\<close>

record ('h, 'f) world =
  Getenv :: "string \<Rightarrow> string"
  NewRequest_err :: "string \<Rightarrow> string \<Rightarrow> error option"
  PostForm :: "string \<Rightarrow> Values \<Rightarrow> error + Response \<times> string"
  Do :: "'h option \<Rightarrow> payload Request \<Rightarrow> error + Response \<times> string"
  Unmarshal :: "string \<Rightarrow> error + (string \<rightharpoonup> 'f go_value)"
  FormatFloat :: "'f \<Rightarrow> string"

text \<open>The network calls a function made, in order.\<close>

datatype 'h net_call =
    PostFormCall string Values
  | DoCall "'h option" "payload Request"

section \<open>Library functions the package relies on\<close>

text \<open>\<^verbatim>\<open>%d\<close> of \<^verbatim>\<open>fmt\<close>: decimal digits, a minus sign before a negative number.\<close>

fun digits :: "nat \<Rightarrow> string" where
  "digits n =
     (if n < 10 then [''0123456789'' ! n]
      else digits (n div 10) @ [''0123456789'' ! (n mod 10)])"

declare digits.simps [simp del]

definition fmt_d :: "int \<Rightarrow> string" where
  "fmt_d i = (if i < 0 then ''-'' @ digits (nat (- i)) else digits (nat i))"

text \<open>Go's integer division truncates towards zero.\<close>

definition go_quo :: "int \<Rightarrow> int \<Rightarrow> int" where
  "go_quo a b = sgn a * sgn b * (\<bar>a\<bar> div \<bar>b\<bar>)"

text \<open>
  \<^verbatim>\<open>http.NewRequest\<close>: on success a request with the method (\<^verbatim>\<open>GET\<close> for the empty
  one), the URL, an empty header and the body.
\<close>

definition http_NewRequest ::
  "('h, 'f) world \<Rightarrow> string \<Rightarrow> string \<Rightarrow> 'b \<Rightarrow> error + 'b Request" where
  "http_NewRequest w m u body =
     (case NewRequest_err w m u of
        Some err \<Rightarrow> Inl err
      | None \<Rightarrow>
          Inr \<lparr>Method = (if m = [] then ''GET'' else m), URL = u, Header = [], Body = body\<rparr>)"

text \<open>
  \<^verbatim>\<open>json.Marshal\<close> of an \<^verbatim>\<open>authPayload\<close> (struct tags, lines 24-29): every member is
  \<^verbatim>\<open>omitempty\<close>, so a string member is left out when empty and an interface member when
  nil; an interface holding the empty string is written.
\<close>

definition json_Marshal :: "authPayload \<Rightarrow> payload" where
  "json_Marshal p =
     (if authPayload.ClientId p = [] then [] else [(''client_id'', authPayload.ClientId p)]) @
     (if authPayload.ClientSecret p = [] then []
      else [(''client_secret'', authPayload.ClientSecret p)]) @
     (if authPayload.GrantType p = [] then [] else [(''grant_type'', authPayload.GrantType p)]) @
     (if authPayload.Scope p = [] then [] else [(''scope'', authPayload.Scope p)]) @
     (case authPayload.Username p of None \<Rightarrow> [] | Some u \<Rightarrow> [(''username'', u)]) @
     (case authPayload.Password p of None \<Rightarrow> [] | Some pw \<Rightarrow> [(''password'', pw)])"

text \<open>
  \<^verbatim>\<open>fmt.Sprintf("%s", t)\<close> for a decoded JSON value \<open>t\<close>. The verb \<^verbatim>\<open>%s\<close> prints a
  string as it is; a bool or a float64 is not a string, and \<^verbatim>\<open>fmt\<close> prints the bad-verb
  form \<^verbatim>\<open>%!s(type=value)\<close>; a slice is printed in brackets and a map as \<^verbatim>\<open>map[k:v ...]\<close>
  with its keys sorted, their elements under the same verb. \<open>printValue\<close> prints an
  element, \<open>Sprintf_s\<close> the argument itself, which differ on nil.
\<close>

definition join :: "string list \<Rightarrow> string" where
  "join xs = concat (case xs of [] \<Rightarrow> [] | y # ys \<Rightarrow> y # map (\<lambda>z. '' '' @ z) ys)"

fun printValue :: "('f \<Rightarrow> string) \<Rightarrow> 'f go_value \<Rightarrow> string"
  and printEntries :: "('f \<Rightarrow> string) \<Rightarrow> (string \<times> 'f go_value) list \<Rightarrow> (string \<times> string) list"
  and printValues :: "('f \<Rightarrow> string) \<Rightarrow> 'f go_value list \<Rightarrow> string list" where
  "printValue ff VNil = ''<nil>''"
| "printValue ff (VBool b) = ''%!s(bool='' @ (if b then ''true'' else ''false'') @ '')''"
| "printValue ff (VFloat64 x) = ''%!s(float64='' @ ff x @ '')''"
| "printValue ff (VString s) = s"
| "printValue ff (VSlice vs) = ''['' @ join (printValues ff vs) @ '']''"
| "printValue ff (VMap kvs) =
     ''map['' @ join (map (\<lambda>(k, s). k @ '':'' @ s) (sort_key fst (printEntries ff kvs))) @ '']''"
| "printEntries ff [] = []"
| "printEntries ff ((k, v) # kvs) = (k, printValue ff v) # printEntries ff kvs"
| "printValues ff [] = []"
| "printValues ff (v # vs) = printValue ff v # printValues ff vs"

definition Sprintf_s :: "('f \<Rightarrow> string) \<Rightarrow> 'f go_value \<Rightarrow> string" where
  "Sprintf_s ff t = (case t of VNil \<Rightarrow> ''%!s(<nil>)'' | _ \<Rightarrow> printValue ff t)"

section \<open>The package's functions\<close>

subsection \<open>Endpoints (lines 89-104)\<close>

definition ApiEndpoint :: "'h Session \<Rightarrow> string" where
  "ApiEndpoint s =
     (if ApiVersion (Config s) > - 1
      then BaseApiUrl (Config s) @ ''/v'' @ fmt_d (ApiVersion (Config s))
      else BaseApiUrl (Config s))"

definition RegistryEndpoint :: "'h Session \<Rightarrow> string" where
  "RegistryEndpoint s = BaseRegistryUrl (Config s) @ ''/v2''"

definition Sesha3Endpoint :: "'h Session \<Rightarrow> string" where
  "Sesha3Endpoint s = Sesha3Url (Config s)"

subsection \<open>SimpleAuthRequest (lines 106-114)\<close>

text \<open>The result is a pointer: \<open>None\<close> is the nil the source returns on an error.\<close>

definition SimpleAuthRequest ::
  "('h, 'f) world \<Rightarrow> 'h Session \<Rightarrow> string \<Rightarrow> string \<Rightarrow> 'b \<Rightarrow> 'b Request option" where
  "SimpleAuthRequest w s m u body =
     (case http_NewRequest w m u body of
        Inl err \<Rightarrow> None
      | Inr req \<Rightarrow>
          Some (req\<lparr>Header :=
            Header_Add (Header req) ''Authorization'' (''Bearer '' @ Session.AccessToken s)\<rparr>))"

subsection \<open>getAccessToken (lines 116-235)\<close>

text \<open>Lines 124-126: the write to \<^verbatim>\<open>s.Config.Scope\<close>.\<close>

definition default_scope :: "'h Config \<Rightarrow> 'h Config" where
  "default_scope c = (if Config.Scope c = [] then c\<lparr>Config.Scope := ''openid''\<rparr> else c)"

text \<open>Lines 129-144: the form of the form-encoded path.\<close>

definition build_form :: "'h Config \<Rightarrow> Values" where
  "build_form c =
     (if Config.GrantType c = ''client_credentials''
      then [(''client_id'', Config.ClientId c),
            (''client_secret'', Config.ClientSecret c),
            (''grant_type'', Config.GrantType c),
            (''scope'', Config.Scope c)]
      else []) @
     (if Config.GrantType c = ''password''
      then [(''client_id'', Config.ClientId c),
            (''client_secret'', Config.ClientSecret c),
            (''grant_type'', Config.GrantType c),
            (''scope'', Config.Scope c),
            (''username'', Config.Username c),
            (''password'', Config.Password c)]
      else [])"

text \<open>
  Lines 154-195: the payload of the JSON path. \<open>explicit_payload\<close> is the pointer \<^verbatim>\<open>p\<close>
  after the two tests of the grant type (lines 154-172), \<open>build_payload\<close> adds the
  branch taken when \<^verbatim>\<open>p\<close> is still nil (lines 174-195), with its one early return.
\<close>

definition explicit_payload :: "'h Config \<Rightarrow> authPayload option" where
  "explicit_payload c =
     (let p = (if Config.GrantType c = ''client_credentials''
               then Some \<lparr>authPayload.ClientId = Config.ClientId c,
                          ClientSecret = Config.ClientSecret c,
                          GrantType = ''client_credentials'',
                          Scope = Config.Scope c,
                          Username = None, Password = None\<rparr>
               else None)
      in if Config.GrantType c = ''password''
         then Some \<lparr>authPayload.ClientId = Config.ClientId c,
                    ClientSecret = Config.ClientSecret c,
                    GrantType = ''password'',
                    Scope = Config.Scope c,
                    Username = Some (Config.Username c),
                    Password = Some (Config.Password c)\<rparr>
         else p)"

definition build_payload :: "'h Config \<Rightarrow> error + authPayload" where
  "build_payload c =
     (case explicit_payload c of
        Some p \<Rightarrow> Inr p
      | None \<Rightarrow>
          if Config.Username c \<noteq> [] then
            if Config.Password c = [] then Inl (errors_New ''password cannot be empty'')
            else Inr \<lparr>authPayload.ClientId = Config.ClientId c,
                      ClientSecret = Config.ClientSecret c,
                      GrantType = ''password'',
                      Scope = [],
                      Username = Some (Config.Username c),
                      Password = Some (Config.Password c)\<rparr>
          else Inr \<lparr>authPayload.ClientId = Config.ClientId c,
                    ClientSecret = Config.ClientSecret c,
                    GrantType = ''client_credentials'',
                    Scope = [],
                    Username = None, Password = None\<rparr>)"

text \<open>Lines 223-234: the token in the body of the response.\<close>

definition parse_token :: "('h, 'f) world \<Rightarrow> string \<Rightarrow> error + string" where
  "parse_token w body =
     (case Unmarshal w body of
        Inl err \<Rightarrow> Inl (errors_Wrap err ''unmarshal failed'')
      | Inr m \<Rightarrow>
          (case m ''access_token'' of
             None \<Rightarrow> Inl (fmt_Errorf ''cannot find access token'')
           | Some t \<Rightarrow> Inr (Sprintf_s (FormatFloat w) t)))"

text \<open>Lines 219-234: the status check, then the token.\<close>

definition read_response :: "('h, 'f) world \<Rightarrow> Response \<Rightarrow> string \<Rightarrow> error + string" where
  "read_response w resp body =
     (if go_quo (StatusCode resp) 100 \<noteq> 2 then Inl (errors_New (Status resp))
      else parse_token w body)"

text \<open>
  Lines 128-217: the request. Either the function returns early with an error, or
  control reaches line 219 with the response and the body read from it. The second
  component lists the network calls made.
\<close>

definition exchange ::
  "('h, 'f) world \<Rightarrow> string \<Rightarrow> 'h Config \<Rightarrow> (error + Response \<times> string) \<times> 'h net_call list" where
  "exchange w accessTokenUrl c =
     (if UseForm c then
        (let form = build_form c in
         case PostForm w accessTokenUrl form of
           Inl err \<Rightarrow> (Inl (errors_Wrap err ''do failed''), [PostFormCall accessTokenUrl form])
         | Inr rb \<Rightarrow> (Inr rb, [PostFormCall accessTokenUrl form]))
      else
        (case build_payload c of
           Inl err \<Rightarrow> (Inl err, [])
         | Inr p \<Rightarrow>
             (case http_NewRequest w ''POST'' accessTokenUrl (json_Marshal p) of
                Inl err \<Rightarrow> (Inl (errors_Wrap err ''new request failed''), [])
              | Inr r0 \<Rightarrow>
                  (let r = r0\<lparr>Header :=
                             Header_Add (Header r0) ''Content-Type'' ''application/json''\<rparr>;
                       cfg = HttpClientConfig c in
                   case Do w cfg r of
                     Inl err \<Rightarrow> (Inl (errors_Wrap err ''do failed''), [DoCall cfg r])
                   | Inr rb \<Rightarrow> (Inr rb, [DoCall cfg r])))))"

text \<open>
  The whole function. It returns the session as it has left it (the receiver is a
  pointer), the error or the token (with an error the source returns the empty token),
  and the network calls it made.
\<close>

definition getAccessToken ::
  "('h, 'f) world \<Rightarrow> 'h Session \<Rightarrow> 'h Session \<times> (error + string) \<times> 'h net_call list" where
  "getAccessToken w s0 =
     (let accessTokenUrl = ApiEndpoint s0 @ ''/access_token'';
          s = s0\<lparr>Config := default_scope (Config s0)\<rparr>
      in case exchange w accessTokenUrl (Config s) of
           (Inl err, calls) \<Rightarrow> (s, Inl err, calls)
         | (Inr (resp, body), calls) \<Rightarrow> (s, read_response w resp body, calls))"

subsection \<open>New (lines 237-318)\<close>

text \<open>Lines 238-247: the configuration \<^verbatim>\<open>New\<close> starts from.\<close>

definition default_Config :: "('h, 'f) world \<Rightarrow> 'h Config" where
  "default_Config w =
     \<lparr>Config.ClientId = Getenv w ''MOBINGI_CLIENT_ID'',
      ClientSecret = Getenv w ''MOBINGI_CLIENT_SECRET'',
      GrantType = [],
      Scope = [],
      Username = Getenv w ''MOBINGI_USERNAME'',
      Password = Getenv w ''MOBINGI_PASSWORD'',
      AccessToken = [],
      ApiVersion = 3,
      BaseApiUrl = BASE_API_URL,
      BaseRegistryUrl = BASE_REGISTRY_URL,
      Sesha3Url = SESHA3_URL,
      UseForm = False,
      HttpClientConfig = None\<rparr>"

text \<open>Lines 251-301: the thirteen guarded assignments from \<^verbatim>\<open>cnf[0]\<close>, in order.\<close>

definition overlay :: "'h Config \<Rightarrow> 'h Config \<Rightarrow> 'h Config" where
  "overlay c0 cnf0 =
     (let c = (if Config.ClientId cnf0 \<noteq> [] then c0\<lparr>Config.ClientId := Config.ClientId cnf0\<rparr> else c0);
          c = (if Config.ClientSecret cnf0 \<noteq> []
               then c\<lparr>Config.ClientSecret := Config.ClientSecret cnf0\<rparr> else c);
          c = (if Config.AccessToken cnf0 \<noteq> []
               then c\<lparr>Config.AccessToken := Config.AccessToken cnf0\<rparr> else c);
          c = (if Config.GrantType cnf0 \<noteq> []
               then c\<lparr>Config.GrantType := Config.GrantType cnf0\<rparr> else c);
          c = (if Config.Scope cnf0 \<noteq> [] then c\<lparr>Config.Scope := Config.Scope cnf0\<rparr> else c);
          c = (if Config.Username cnf0 \<noteq> []
               then c\<lparr>Config.Username := Config.Username cnf0\<rparr> else c);
          c = (if Config.Password cnf0 \<noteq> []
               then c\<lparr>Config.Password := Config.Password cnf0\<rparr> else c);
          c = (if ApiVersion cnf0 \<noteq> 0 then c\<lparr>ApiVersion := ApiVersion cnf0\<rparr> else c);
          c = (if BaseApiUrl cnf0 \<noteq> [] then c\<lparr>BaseApiUrl := BaseApiUrl cnf0\<rparr> else c);
          c = (if BaseRegistryUrl cnf0 \<noteq> []
               then c\<lparr>BaseRegistryUrl := BaseRegistryUrl cnf0\<rparr> else c);
          c = (if Sesha3Url cnf0 \<noteq> [] then c\<lparr>Sesha3Url := Sesha3Url cnf0\<rparr> else c);
          c = (if UseForm cnf0 then c\<lparr>UseForm := UseForm cnf0\<rparr> else c);
          c = (if HttpClientConfig cnf0 \<noteq> None
               then c\<lparr>HttpClientConfig := HttpClientConfig cnf0\<rparr> else c)
      in c)"

text \<open>
  Lines 238-303. The variadic parameter is a slice of pointers, each of which may be
  nil: only \<^verbatim>\<open>cnf[0]\<close> is read, and only when it is there and not nil.
\<close>

definition resolve :: "('h, 'f) world \<Rightarrow> 'h Config option list \<Rightarrow> 'h Config" where
  "resolve w cnf =
     (let c = default_Config w in
      case cnf of
        [] \<Rightarrow> c
      | None # _ \<Rightarrow> c
      | Some cnf0 # _ \<Rightarrow> overlay c cnf0)"

text \<open>
  \<^verbatim>\<open>New\<close> returns a session in every case (never nil), the error if any, and here also
  the network calls made.
\<close>

definition New ::
  "('h, 'f) world \<Rightarrow> 'h Config option list \<Rightarrow> 'h Session \<times> error option \<times> 'h net_call list" where
  "New w cnf =
     (let c = resolve w cnf;
          s = \<lparr>Config = c, AccessToken = []\<rparr>
      in if Config.AccessToken c \<noteq> [] then (s\<lparr>Session.AccessToken := Config.AccessToken c\<rparr>, None, [])
         else
           (case getAccessToken w s of
              (s', Inl err, calls) \<Rightarrow> (s', Some (errors_Wrap err ''get access token failed''), calls)
            | (s', Inr token, calls) \<Rightarrow> (s'\<lparr>Session.AccessToken := token\<rparr>, None, calls)))"

section \<open>Reading a decimal numeral\<close>

text \<open>The number a string of decimal digits denotes, to say what \<open>digits\<close> prints.\<close>

definition digit_value :: "char \<Rightarrow> nat" where
  "digit_value c = of_char c - 48"

definition decimal_value :: "string \<Rightarrow> nat" where
  "decimal_value ds = foldl (\<lambda>a c. 10 * a + digit_value c) 0 ds"

section \<open>Concrete worlds and configurations\<close>

text \<open>
  Worlds with no environment variable set, in which every request can be built. In
  \<open>world_ok\<close> the token endpoint answers 200 with the token \<^verbatim>\<open>X\<close>; in \<open>world_down\<close> no
  connection can be made; in \<open>world_404\<close> the endpoint answers 404; in \<open>world_true\<close> it
  answers 200 with the JSON boolean \<^verbatim>\<open>true\<close> as the token; in \<open>world_nokey\<close> it answers
  200 with an empty JSON object.
\<close>

definition answering :: "error + Response \<times> string \<Rightarrow> (string \<rightharpoonup> int go_value) \<Rightarrow> (nat, int) world" where
  "answering r m =
     \<lparr>Getenv = (\<lambda>_. []),
      NewRequest_err = (\<lambda>_ _. None),
      PostForm = (\<lambda>_ _. r),
      Do = (\<lambda>_ _. r),
      Unmarshal = (\<lambda>_. Inr m),
      FormatFloat = fmt_d\<rparr>"

definition world_ok :: "(nat, int) world" where
  "world_ok = answering (Inr (\<lparr>Status = ''200 OK'', StatusCode = 200\<rparr>, ''{\"access_token\":\"X\"}''))
     [''access_token'' \<mapsto> VString ''X'']"

definition world_down :: "(nat, int) world" where
  "world_down = answering (Inl (External ''connection refused'')) Map.empty"

definition world_404 :: "(nat, int) world" where
  "world_404 = answering (Inr (\<lparr>Status = ''404 Not Found'', StatusCode = 404\<rparr>, [])) Map.empty"

definition world_true :: "(nat, int) world" where
  "world_true = answering (Inr (\<lparr>Status = ''200 OK'', StatusCode = 200\<rparr>, ''{\"access_token\":true}''))
     [''access_token'' \<mapsto> VBool True]"

definition world_nokey :: "(nat, int) world" where
  "world_nokey = answering (Inr (\<lparr>Status = ''200 OK'', StatusCode = 200\<rparr>, ''{}'')) Map.empty"

text \<open>The zero \<^verbatim>\<open>Config{}\<close>, from which the overrides below are built.\<close>

definition zero_Config :: "nat Config" where
  "zero_Config =
     \<lparr>Config.ClientId = [], ClientSecret = [], GrantType = [], Scope = [], Username = [],
      Password = [], AccessToken = [], ApiVersion = 0, BaseApiUrl = [], BaseRegistryUrl = [],
      Sesha3Url = [], UseForm = False, HttpClientConfig = None\<rparr>"

text \<open>
  \<open>world_strict\<close> is \<open>world_ok\<close> where \<^verbatim>\<open>http.NewRequest\<close> refuses one method;
  \<open>session_T\<close> is a session with the token \<^verbatim>\<open>T\<close>; \<open>override_a\<close> and \<open>override_b\<close> are
  two overrides for \<^verbatim>\<open>New\<close>.
\<close>

definition world_strict :: "(nat, int) world" where
  "world_strict = world_ok\<lparr>NewRequest_err :=
     (\<lambda>m u. if m = ''BAD METHOD'' then Some (External ''net/http: invalid method'') else None)\<rparr>"

definition session_T :: "nat Session" where
  "session_T = \<lparr>Config = default_Config world_ok, AccessToken = ''T''\<rparr>"

definition override_a :: "nat Config" where
  "override_a = zero_Config\<lparr>Config.ClientId := ''id'', ApiVersion := 2, UseForm := True\<rparr>"

definition override_b :: "nat Config" where
  "override_b = zero_Config\<lparr>Config.ClientId := ''other'', Config.Scope := ''email''\<rparr>"

text \<open>
  \<open>no_env_Config\<close> is the default configuration when no environment variable is set,
  \<open>default_session\<close> the session \<^verbatim>\<open>New()\<close> then starts from, \<open>explicit_session\<close> the same
  with the grant type \<^verbatim>\<open>client_credentials\<close> given, and \<open>override_of g u f\<close> the override
  \<^verbatim>\<open>&Config{GrantType: g, Username: u, UseForm: f}\<close>. The three requests are the ones
  the JSON path sends for them.
\<close>

definition no_env_Config :: "nat Config" where
  "no_env_Config =
     \<lparr>Config.ClientId = [], ClientSecret = [], GrantType = [], Scope = [], Username = [],
      Password = [], AccessToken = [], ApiVersion = 3,
      BaseApiUrl = ''https://api.mobingi.com'',
      BaseRegistryUrl = ''https://registry.mobingi.com'',
      Sesha3Url = ''https://sesha3.mobingi.com'', UseForm = False, HttpClientConfig = None\<rparr>"

definition default_session :: "nat Session" where
  "default_session = \<lparr>Config = no_env_Config, AccessToken = []\<rparr>"

definition explicit_session :: "nat Session" where
  "explicit_session =
     \<lparr>Config = no_env_Config\<lparr>Config.GrantType := ''client_credentials''\<rparr>, AccessToken = []\<rparr>"

definition override_of :: "string \<Rightarrow> string \<Rightarrow> bool \<Rightarrow> nat Config" where
  "override_of g u f = zero_Config\<lparr>Config.GrantType := g, Config.Username := u, UseForm := f\<rparr>"

definition inferred_request :: "payload Request" where
  "inferred_request =
     \<lparr>Method = ''POST'', URL = ''https://api.mobingi.com/v3/access_token'',
      Header = [(''Content-Type'', [''application/json''])],
      Body = [(''grant_type'', ''client_credentials'')]\<rparr>"

definition explicit_request :: "payload Request" where
  "explicit_request =
     inferred_request\<lparr>Body := [(''grant_type'', ''client_credentials''), (''scope'', ''openid'')]\<rparr>"

definition password_request :: "payload Request" where
  "password_request =
     inferred_request\<lparr>Body := [(''grant_type'', ''password''), (''scope'', ''openid''),
                               (''username'', ''u''), (''password'', [])]\<rparr>"

section \<open>Facts about the library functions\<close>

lemma digit_char_value: "n < 10 \<Longrightarrow> digit_value (''0123456789'' ! n) = n"
proof -
  assume "n < 10"
  then have "n \<in> set [0..<10]" by simp
  then show ?thesis
    by (auto simp add: upt_rec digit_value_def)
qed

lemma decimal_value_snoc: "decimal_value (ds @ [c]) = 10 * decimal_value ds + digit_value c"
  by (simp add: decimal_value_def)

text \<open>What \<open>digits\<close> prints is the decimal numeral of its argument.\<close>

lemma decimal_value_digits: "decimal_value (digits n) = n"
proof (induction n rule: digits.induct)
  case (1 n)
  show ?case
  proof (cases "n < 10")
    case True
    then show ?thesis
      by (subst digits.simps) (simp add: decimal_value_def digit_char_value)
  next
    case False
    with "1" have "decimal_value (digits (n div 10)) = n div 10" by simp
    with False show ?thesis
      by (subst digits.simps) (simp add: decimal_value_snoc digit_char_value)
  qed
qed

text \<open>The test of line 219 passes for the status codes 200 to 299 and for no other.\<close>

lemma go_quo_100_is_2: "go_quo code 100 = 2 \<longleftrightarrow> 200 \<le> code \<and> code \<le> 299"
proof (cases "code < 0")
  case True
  then have "go_quo code 100 = - (\<bar>code\<bar> div 100)" by (simp add: go_quo_def)
  moreover have "0 \<le> \<bar>code\<bar> div 100" by simp
  ultimately show ?thesis using True by linarith
next
  case False
  then have "go_quo code 100 = code div 100 \<or> code = 0"
    by (cases "code = 0") (simp_all add: go_quo_def)
  with False show ?thesis by (auto simp: go_quo_def)
qed

section \<open>The endpoint of the API\<close>

text \<open>
  Claim C3. For every session, \<^verbatim>\<open>ApiEndpoint()\<close> is the base URL, then \<^verbatim>\<open>/v\<close>, then the
  API version in decimal, when the version is at least 0, and the base URL unchanged
  when the version is negative. With version 3 and the base URL
  \<^verbatim>\<open>https://api.mobingi.com\<close> it is exactly \<^verbatim>\<open>https://api.mobingi.com/v3\<close>; with
  version -1 it is the base URL.
\<close>

theorem ApiEndpoint_versioned:
  "(0 \<le> ApiVersion (Config s) \<longrightarrow>
      ApiEndpoint s = BaseApiUrl (Config s) @ ''/v'' @ digits (nat (ApiVersion (Config s))) \<and>
      int (decimal_value (digits (nat (ApiVersion (Config s))))) = ApiVersion (Config s)) \<and>
   (ApiVersion (Config s) < 0 \<longrightarrow> ApiEndpoint s = BaseApiUrl (Config s)) \<and>
   (ApiVersion (Config s) = 3 \<and> BaseApiUrl (Config s) = ''https://api.mobingi.com'' \<longrightarrow>
      ApiEndpoint s = ''https://api.mobingi.com/v3'') \<and>
   (ApiVersion (Config s) = - 1 \<longrightarrow> ApiEndpoint s = BaseApiUrl (Config s))"
  by (auto simp add: ApiEndpoint_def fmt_d_def decimal_value_digits digits.simps [of 3])

theorem ApiEndpoint_versioned_witness:
  "ApiEndpoint \<lparr>Config = default_Config world_ok, AccessToken = []\<rparr> = ''https://api.mobingi.com/v3'' \<and>
   ApiEndpoint \<lparr>Config = (default_Config world_ok)\<lparr>ApiVersion := - 1\<rparr>, AccessToken = []\<rparr>
     = ''https://api.mobingi.com''"
  using ApiEndpoint_versioned [of "\<lparr>Config = default_Config world_ok, AccessToken = []\<rparr>"]
    ApiEndpoint_versioned [of "\<lparr>Config = (default_Config world_ok)\<lparr>ApiVersion := - 1\<rparr>, AccessToken = []\<rparr>"]
  by (simp add: default_Config_def BASE_API_URL_def digits.simps [of 3])

section \<open>A token given in the configuration\<close>

lemma resolve_zero_AccessToken:
  "resolve world_ok [Some (zero_Config\<lparr>Config.AccessToken := ''T''\<rparr>)] =
     (default_Config world_ok)\<lparr>Config.AccessToken := ''T''\<rparr>"
  by (simp add: resolve_def overlay_def zero_Config_def Let_def)

text \<open>
  Claim C2. When the access token of the resolved configuration is a non-empty string
  \<open>T\<close>, \<^verbatim>\<open>New\<close> returns a session with that configuration and the token \<open>T\<close>, no error,
  and makes no network call: there is no credential exchange.
\<close>

theorem New_preset_token:
  "Config.AccessToken (resolve w cnf) = T \<Longrightarrow> T \<noteq> [] \<Longrightarrow>
   New w cnf = (\<lparr>Config = resolve w cnf, AccessToken = T\<rparr>, None, [])"
  by (simp add: New_def Let_def)

theorem New_preset_token_witness:
  "New world_ok [Some (zero_Config\<lparr>Config.AccessToken := ''T''\<rparr>)] =
     (\<lparr>Config = (default_Config world_ok)\<lparr>Config.AccessToken := ''T''\<rparr>, AccessToken = ''T''\<rparr>, None, [])"
  using New_preset_token [of world_ok "[Some (zero_Config\<lparr>Config.AccessToken := ''T''\<rparr>)]" "''T''"]
  by (simp add: resolve_zero_AccessToken)

section \<open>Resolving the configuration\<close>

text \<open>
  Two rewriting steps for the thirteen guarded assignments of \<open>overlay\<close>: a
  conditional between two configurations is the configuration of the conditionals, and
  a \<open>let\<close> of a configuration written out is unfolded.
\<close>

lemma if_Config:
  "(if b then \<lparr>Config.ClientId = a1, ClientSecret = a2, GrantType = a3, Scope = a4, Username = a5,
       Password = a6, AccessToken = a7, ApiVersion = a8, BaseApiUrl = a9, BaseRegistryUrl = a10,
       Sesha3Url = a11, UseForm = a12, HttpClientConfig = a13\<rparr>
    else \<lparr>Config.ClientId = b1, ClientSecret = b2, GrantType = b3, Scope = b4, Username = b5,
       Password = b6, AccessToken = b7, ApiVersion = b8, BaseApiUrl = b9, BaseRegistryUrl = b10,
       Sesha3Url = b11, UseForm = b12, HttpClientConfig = b13\<rparr>) =
   \<lparr>Config.ClientId = (if b then a1 else b1), ClientSecret = (if b then a2 else b2),
    GrantType = (if b then a3 else b3), Scope = (if b then a4 else b4),
    Username = (if b then a5 else b5), Password = (if b then a6 else b6),
    AccessToken = (if b then a7 else b7), ApiVersion = (if b then a8 else b8),
    BaseApiUrl = (if b then a9 else b9), BaseRegistryUrl = (if b then a10 else b10),
    Sesha3Url = (if b then a11 else b11), UseForm = (if b then a12 else b12),
    HttpClientConfig = (if b then a13 else b13)\<rparr>"
  by simp

lemma Let_Config:
  "Let \<lparr>Config.ClientId = a1, ClientSecret = a2, GrantType = a3, Scope = a4, Username = a5,
       Password = a6, AccessToken = a7, ApiVersion = a8, BaseApiUrl = a9, BaseRegistryUrl = a10,
       Sesha3Url = a11, UseForm = a12, HttpClientConfig = a13\<rparr> f =
   f \<lparr>Config.ClientId = a1, ClientSecret = a2, GrantType = a3, Scope = a4, Username = a5,
       Password = a6, AccessToken = a7, ApiVersion = a8, BaseApiUrl = a9, BaseRegistryUrl = a10,
       Sesha3Url = a11, UseForm = a12, HttpClientConfig = a13\<rparr>"
  by (simp add: Let_def)

lemma overlay_literal:
  "overlay \<lparr>Config.ClientId = d1, ClientSecret = d2, GrantType = d3, Scope = d4, Username = d5,
       Password = d6, AccessToken = d7, ApiVersion = d8, BaseApiUrl = d9, BaseRegistryUrl = d10,
       Sesha3Url = d11, UseForm = d12, HttpClientConfig = d13\<rparr> cnf0 =
     \<lparr>Config.ClientId = (if Config.ClientId cnf0 \<noteq> [] then Config.ClientId cnf0 else d1),
      ClientSecret = (if Config.ClientSecret cnf0 \<noteq> [] then Config.ClientSecret cnf0 else d2),
      GrantType = (if Config.GrantType cnf0 \<noteq> [] then Config.GrantType cnf0 else d3),
      Scope = (if Config.Scope cnf0 \<noteq> [] then Config.Scope cnf0 else d4),
      Username = (if Config.Username cnf0 \<noteq> [] then Config.Username cnf0 else d5),
      Password = (if Config.Password cnf0 \<noteq> [] then Config.Password cnf0 else d6),
      AccessToken = (if Config.AccessToken cnf0 \<noteq> [] then Config.AccessToken cnf0 else d7),
      ApiVersion = (if ApiVersion cnf0 \<noteq> 0 then ApiVersion cnf0 else d8),
      BaseApiUrl = (if BaseApiUrl cnf0 \<noteq> [] then BaseApiUrl cnf0 else d9),
      BaseRegistryUrl = (if BaseRegistryUrl cnf0 \<noteq> [] then BaseRegistryUrl cnf0 else d10),
      Sesha3Url = (if Sesha3Url cnf0 \<noteq> [] then Sesha3Url cnf0 else d11),
      UseForm = (if UseForm cnf0 then UseForm cnf0 else d12),
      HttpClientConfig = (if HttpClientConfig cnf0 \<noteq> None then HttpClientConfig cnf0 else d13)\<rparr>"
  apply (simp only: overlay_def)
  apply (simp only: Let_Config if_Config Config.simps if_cancel)
  done

lemma default_Config_literal:
  "default_Config w =
     \<lparr>Config.ClientId = Getenv w ''MOBINGI_CLIENT_ID'',
      ClientSecret = Getenv w ''MOBINGI_CLIENT_SECRET'',
      GrantType = [], Scope = [],
      Username = Getenv w ''MOBINGI_USERNAME'',
      Password = Getenv w ''MOBINGI_PASSWORD'',
      AccessToken = [], ApiVersion = 3,
      BaseApiUrl = ''https://api.mobingi.com'',
      BaseRegistryUrl = ''https://registry.mobingi.com'',
      Sesha3Url = ''https://sesha3.mobingi.com'',
      UseForm = False, HttpClientConfig = None\<rparr>"
  by (simp only: default_Config_def BASE_API_URL_def BASE_REGISTRY_URL_def SESHA3_URL_def)

text \<open>
  Claim C4. For every list of overrides and every environment, the configuration
  \<^verbatim>\<open>New\<close> resolves is the default one (client id, client secret, user name and
  password from the four environment variables, the three production URLs, API version
  3, everything else zero) when there is no override or the first one is nil;
  otherwise every field is the first override's where that is a non-empty string, a
  non-zero integer, true or a non-nil pointer, and the default elsewhere. Overrides
  after the first are ignored.
\<close>

theorem resolve_defaults_then_first_override:
  "resolve w [] = default_Config w \<and>
   resolve w (None # rest) = default_Config w \<and>
   resolve w (Some cnf0 # rest) = resolve w [Some cnf0] \<and>
   resolve w (Some cnf0 # rest) =
     \<lparr>Config.ClientId =
        (if Config.ClientId cnf0 \<noteq> [] then Config.ClientId cnf0 else Getenv w ''MOBINGI_CLIENT_ID''),
      ClientSecret =
        (if Config.ClientSecret cnf0 \<noteq> [] then Config.ClientSecret cnf0
         else Getenv w ''MOBINGI_CLIENT_SECRET''),
      GrantType = (if Config.GrantType cnf0 \<noteq> [] then Config.GrantType cnf0 else []),
      Scope = (if Config.Scope cnf0 \<noteq> [] then Config.Scope cnf0 else []),
      Username =
        (if Config.Username cnf0 \<noteq> [] then Config.Username cnf0 else Getenv w ''MOBINGI_USERNAME''),
      Password =
        (if Config.Password cnf0 \<noteq> [] then Config.Password cnf0 else Getenv w ''MOBINGI_PASSWORD''),
      AccessToken = (if Config.AccessToken cnf0 \<noteq> [] then Config.AccessToken cnf0 else []),
      ApiVersion = (if ApiVersion cnf0 \<noteq> 0 then ApiVersion cnf0 else 3),
      BaseApiUrl = (if BaseApiUrl cnf0 \<noteq> [] then BaseApiUrl cnf0 else ''https://api.mobingi.com''),
      BaseRegistryUrl =
        (if BaseRegistryUrl cnf0 \<noteq> [] then BaseRegistryUrl cnf0
         else ''https://registry.mobingi.com''),
      Sesha3Url = (if Sesha3Url cnf0 \<noteq> [] then Sesha3Url cnf0 else ''https://sesha3.mobingi.com''),
      UseForm = (if UseForm cnf0 then UseForm cnf0 else False),
      HttpClientConfig =
        (if HttpClientConfig cnf0 \<noteq> None then HttpClientConfig cnf0 else None)\<rparr> \<and>
   default_Config w =
     \<lparr>Config.ClientId = Getenv w ''MOBINGI_CLIENT_ID'',
      ClientSecret = Getenv w ''MOBINGI_CLIENT_SECRET'',
      GrantType = [], Scope = [],
      Username = Getenv w ''MOBINGI_USERNAME'',
      Password = Getenv w ''MOBINGI_PASSWORD'',
      AccessToken = [], ApiVersion = 3,
      BaseApiUrl = ''https://api.mobingi.com'',
      BaseRegistryUrl = ''https://registry.mobingi.com'',
      Sesha3Url = ''https://sesha3.mobingi.com'',
      UseForm = False, HttpClientConfig = None\<rparr>"
proof -
  have e: "resolve w [] = default_Config w" "resolve w (None # rest) = default_Config w"
    by (simp_all add: resolve_def)
  have f: "resolve w (Some cnf0 # rest) = overlay (default_Config w) cnf0" for rest
    by (simp add: resolve_def)
  show ?thesis
    unfolding e f unfolding default_Config_literal overlay_literal
    by (simp only: simp_thms)
qed

theorem resolve_defaults_then_first_override_witness:
  "resolve world_ok [Some override_a, Some override_b] =
     \<lparr>Config.ClientId = ''id'', ClientSecret = [], GrantType = [], Scope = [], Username = [],
      Password = [], AccessToken = [], ApiVersion = 2,
      BaseApiUrl = ''https://api.mobingi.com'',
      BaseRegistryUrl = ''https://registry.mobingi.com'',
      Sesha3Url = ''https://sesha3.mobingi.com'', UseForm = True, HttpClientConfig = None\<rparr>"
proof -
  have env: "Getenv world_ok = (\<lambda>_. [])"
    by (simp add: world_ok_def answering_def)
  note all = resolve_defaults_then_first_override [of world_ok "[Some override_b]" override_a]
  note fields = all [THEN conjunct2, THEN conjunct2, THEN conjunct2, THEN conjunct1]
  show ?thesis
    using fields by (simp add: env override_a_def zero_Config_def)
qed

section \<open>Authenticated requests\<close>

text \<open>
  Claim C8. For every session, method, URL and body, \<^verbatim>\<open>SimpleAuthRequest\<close> returns nil
  exactly when \<^verbatim>\<open>http.NewRequest\<close> fails, and the error is not passed on (the result
  is a request or nil, nothing else); otherwise it returns the request that was built,
  with \<^verbatim>\<open>Bearer\<close>, a space and the session's access token added under the header
  \<^verbatim>\<open>Authorization\<close>, where it is the only value.
\<close>

theorem SimpleAuthRequest_nil_iff_error:
  "(SimpleAuthRequest w s m u body = None \<longleftrightarrow> (\<exists>err. http_NewRequest w m u body = Inl err)) \<and>
   (http_NewRequest w m u body = Inl err \<longrightarrow> SimpleAuthRequest w s m u body = None) \<and>
   (http_NewRequest w m u body = Inr req \<longrightarrow>
      SimpleAuthRequest w s m u body =
        Some (req\<lparr>Header := Header_Add (Header req) ''Authorization''
                                (''Bearer '' @ Session.AccessToken s)\<rparr>) \<and>
      Header_Values (Header (the (SimpleAuthRequest w s m u body))) ''Authorization'' =
        [''Bearer '' @ Session.AccessToken s])"
  by (auto simp add: SimpleAuthRequest_def http_NewRequest_def Header_Values_def
      split: sum.splits option.splits)

theorem SimpleAuthRequest_nil_iff_error_witness:
  "SimpleAuthRequest world_strict session_T ''BAD METHOD'' ''https://api.mobingi.com/v3/x'' () = None \<and>
   SimpleAuthRequest world_strict session_T ''GET'' ''https://api.mobingi.com/v3/x'' () =
     Some \<lparr>Method = ''GET'', URL = ''https://api.mobingi.com/v3/x'',
           Header = [(''Authorization'', [''Bearer T''])], Body = ()\<rparr>"
proof -
  have bad: "http_NewRequest world_strict ''BAD METHOD'' ''https://api.mobingi.com/v3/x'' () =
      Inl (External ''net/http: invalid method'')"
    by (simp add: http_NewRequest_def world_strict_def)
  have good: "http_NewRequest world_strict ''GET'' ''https://api.mobingi.com/v3/x'' () =
      Inr \<lparr>Method = ''GET'', URL = ''https://api.mobingi.com/v3/x'', Header = [], Body = ()\<rparr>"
    by (simp add: http_NewRequest_def world_strict_def)
  show ?thesis
    using SimpleAuthRequest_nil_iff_error [of world_strict session_T "''BAD METHOD''"
        "''https://api.mobingi.com/v3/x''" "()" "External ''net/http: invalid method''"] bad
      SimpleAuthRequest_nil_iff_error [of world_strict session_T "''GET''"
        "''https://api.mobingi.com/v3/x''" "()" _
        "\<lparr>Method = ''GET'', URL = ''https://api.mobingi.com/v3/x'', Header = [], Body = ()\<rparr>"] good
    by (simp add: session_T_def)
qed

section \<open>The credential exchange\<close>

text \<open>What \<open>getAccessToken\<close> returns, component by component.\<close>

lemma getAccessToken_session:
  "fst (getAccessToken w s) = s\<lparr>Config := default_scope (Config s)\<rparr>"
  by (simp add: getAccessToken_def Let_def split: prod.splits sum.splits)

lemma getAccessToken_calls:
  "snd (snd (getAccessToken w s)) =
     snd (exchange w (ApiEndpoint s @ ''/access_token'') (default_scope (Config s)))"
  by (simp add: getAccessToken_def Let_def split: prod.splits sum.splits)

lemma getAccessToken_result:
  "fst (snd (getAccessToken w s)) =
     (case fst (exchange w (ApiEndpoint s @ ''/access_token'') (default_scope (Config s))) of
        Inl err \<Rightarrow> Inl err
      | Inr (resp, body) \<Rightarrow> read_response w resp body)"
  by (simp add: getAccessToken_def Let_def split: prod.splits sum.splits)

text \<open>
  Claim C9. The credential exchange writes to the session's configuration: when the
  scope is empty, after \<^verbatim>\<open>getAccessToken\<close> the scope is \<^verbatim>\<open>openid\<close>, and this is what
  the session \<^verbatim>\<open>New\<close> returns shows; every other field of the configuration is as it
  was (and with a non-empty scope the configuration is unchanged), as is the session's
  token.
\<close>

theorem getAccessToken_defaults_scope:
  "getAccessToken w s = (s', r, calls) \<Longrightarrow>
   (Config.Scope (Config s) = [] \<longrightarrow>
      Config.Scope (Config s') = ''openid'' \<and> Config s' = (Config s)\<lparr>Config.Scope := ''openid''\<rparr>) \<and>
   (Config.Scope (Config s) \<noteq> [] \<longrightarrow> Config s' = Config s) \<and>
   Config.ClientId (Config s') = Config.ClientId (Config s) \<and>
   Config.ClientSecret (Config s') = Config.ClientSecret (Config s) \<and>
   Config.GrantType (Config s') = Config.GrantType (Config s) \<and>
   Config.Username (Config s') = Config.Username (Config s) \<and>
   Config.Password (Config s') = Config.Password (Config s) \<and>
   Config.AccessToken (Config s') = Config.AccessToken (Config s) \<and>
   ApiVersion (Config s') = ApiVersion (Config s) \<and>
   BaseApiUrl (Config s') = BaseApiUrl (Config s) \<and>
   BaseRegistryUrl (Config s') = BaseRegistryUrl (Config s) \<and>
   Sesha3Url (Config s') = Sesha3Url (Config s) \<and>
   UseForm (Config s') = UseForm (Config s) \<and>
   HttpClientConfig (Config s') = HttpClientConfig (Config s) \<and>
   Session.AccessToken s' = Session.AccessToken s \<and>
   (Config.AccessToken (resolve w cnf) = [] \<and> Config.Scope (resolve w cnf) = [] \<longrightarrow>
      Config.Scope (Config (fst (New w cnf))) = ''openid'')"
proof -
  assume "getAccessToken w s = (s', r, calls)"
  then have s': "s' = s\<lparr>Config := default_scope (Config s)\<rparr>"
    using getAccessToken_session [of w s] by simp
  have new: "Config (fst (New w cnf)) = default_scope (resolve w cnf)"
    if "Config.AccessToken (resolve w cnf) = []"
  proof -
    obtain s1 r1 c1 where g: "getAccessToken w \<lparr>Config = resolve w cnf, AccessToken = []\<rparr> = (s1, r1, c1)"
      by (cases "getAccessToken w \<lparr>Config = resolve w cnf, AccessToken = []\<rparr>")
    with getAccessToken_session [of w "\<lparr>Config = resolve w cnf, AccessToken = []\<rparr>"]
    have "Config s1 = default_scope (resolve w cnf)" by simp
    with g that show ?thesis
      by (cases r1) (simp_all add: New_def Let_def)
  qed
  show ?thesis
    unfolding s' using new by (simp add: default_scope_def)
qed

theorem getAccessToken_defaults_scope_witness:
  "Config.Scope (default_Config world_ok) = [] \<and>
   Config (fst (getAccessToken world_ok \<lparr>Config = default_Config world_ok, AccessToken = []\<rparr>)) =
     (default_Config world_ok)\<lparr>Config.Scope := ''openid''\<rparr> \<and>
   Config.Scope (Config (fst (New world_ok []))) = ''openid''"
proof -
  let ?s = "\<lparr>Config = default_Config world_ok, AccessToken = []\<rparr> :: nat Session"
  let ?g = "getAccessToken world_ok ?s"
  have run: "?g = (fst ?g, fst (snd ?g), snd (snd ?g))" by simp
  have empty: "Config.Scope (default_Config world_ok) = []"
    by (simp add: default_Config_def)
  have res: "resolve world_ok [] = default_Config world_ok"
    by (simp add: resolve_def)
  have tok: "Config.AccessToken (default_Config world_ok) = []"
    by (simp add: default_Config_def)
  show ?thesis
    using getAccessToken_defaults_scope [OF run, of "[]"] empty res tok by simp
qed

section \<open>The payload of the JSON path\<close>

lemma json_Marshal_scope:
  "''scope'' \<in> fst ` set (json_Marshal p) \<longleftrightarrow> authPayload.Scope p \<noteq> []"
  by (auto simp add: json_Marshal_def split: option.splits if_splits)

lemma json_Marshal_scope_value:
  "authPayload.Scope p \<noteq> [] \<Longrightarrow> (''scope'', authPayload.Scope p) \<in> set (json_Marshal p)"
  by (simp add: json_Marshal_def)

lemma build_payload_Scope:
  "build_payload c = Inr p \<Longrightarrow>
   authPayload.Scope p =
     (if Config.GrantType c = ''client_credentials'' \<or> Config.GrantType c = ''password''
      then Config.Scope c else [])"
  by (auto simp add: build_payload_def explicit_payload_def Let_def split: if_splits)

lemma exchange_json_call:
  "\<not> UseForm c \<Longrightarrow> snd (exchange w url c) = [DoCall cfg r] \<Longrightarrow>
   \<exists>p. build_payload c = Inr p \<and> Body r = json_Marshal p \<and> cfg = HttpClientConfig c"
  by (auto simp add: exchange_def http_NewRequest_def Let_def split: sum.splits option.splits)

lemma default_scope_nonempty: "Config.Scope (default_scope c) \<noteq> []"
  by (simp add: default_scope_def)

lemma default_scope_fields:
  "Config.GrantType (default_scope c) = Config.GrantType c"
  "UseForm (default_scope c) = UseForm c"
  by (simp_all add: default_scope_def)

text \<open>
  Claim C10. On the JSON path, the payload sent to the token endpoint has a member
  \<^verbatim>\<open>scope\<close> exactly when the grant type of the configuration is \<^verbatim>\<open>client_credentials\<close>
  or \<^verbatim>\<open>password\<close>, and then its value is the configuration's scope; with any other
  grant type (the inferred grant) there is no such member, although the scope of the
  configuration is by then not empty.
\<close>

theorem json_scope_only_for_explicit_grant:
  "\<not> UseForm (Config s) \<Longrightarrow> snd (snd (getAccessToken w s)) = [DoCall cfg r] \<Longrightarrow>
   Config.Scope (Config (fst (getAccessToken w s))) \<noteq> [] \<and>
   (''scope'' \<in> fst ` set (Body r) \<longleftrightarrow>
      Config.GrantType (Config s) = ''client_credentials'' \<or>
      Config.GrantType (Config s) = ''password'') \<and>
   (Config.GrantType (Config s) = ''client_credentials'' \<or>
    Config.GrantType (Config s) = ''password'' \<longrightarrow>
      (''scope'', Config.Scope (Config (fst (getAccessToken w s)))) \<in> set (Body r))"
proof -
  assume json: "\<not> UseForm (Config s)"
    and call: "snd (snd (getAccessToken w s)) = [DoCall cfg r]"
  let ?c = "default_scope (Config s)"
  from json have "\<not> UseForm ?c" by (simp add: default_scope_fields)
  moreover from call
  have "snd (exchange w (ApiEndpoint s @ ''/access_token'') ?c) = [DoCall cfg r]"
    by (simp add: getAccessToken_calls)
  ultimately obtain p where p: "build_payload ?c = Inr p" and body: "Body r = json_Marshal p"
    using exchange_json_call by blast
  have scope: "authPayload.Scope p =
     (if Config.GrantType (Config s) = ''client_credentials'' \<or>
         Config.GrantType (Config s) = ''password''
      then Config.Scope ?c else [])"
    using build_payload_Scope [OF p] by (simp add: default_scope_fields)
  have cfg: "Config (fst (getAccessToken w s)) = ?c"
    by (simp add: getAccessToken_session)
  show ?thesis
    unfolding cfg body json_Marshal_scope
    using scope default_scope_nonempty [of "Config s"] json_Marshal_scope_value [of p]
    by auto
qed

section \<open>Running the concrete worlds\<close>

lemma default_Config_no_env: "default_Config (answering r m) = no_env_Config"
  by (simp add: default_Config_literal answering_def no_env_Config_def)

lemma resolve_no_env:
  "resolve (answering r m) [] = no_env_Config"
  "resolve (answering r m)
      (Some (zero_Config\<lparr>Config.GrantType := g, Config.Username := u, UseForm := f\<rparr>) # rest) =
     no_env_Config\<lparr>Config.GrantType := g, Config.Username := u, UseForm := f\<rparr>"
proof -
  show "resolve (answering r m) [] = no_env_Config"
    by (simp add: resolve_def default_Config_no_env)
  have "resolve (answering r m)
      (Some (zero_Config\<lparr>Config.GrantType := g, Config.Username := u, UseForm := f\<rparr>) # rest) =
    overlay no_env_Config (zero_Config\<lparr>Config.GrantType := g, Config.Username := u, UseForm := f\<rparr>)"
    by (simp add: resolve_def default_Config_no_env)
  also have "\<dots> = no_env_Config\<lparr>Config.GrantType := g, Config.Username := u, UseForm := f\<rparr>"
    unfolding no_env_Config_def overlay_literal by (simp add: zero_Config_def)
  finally show "resolve (answering r m)
      (Some (zero_Config\<lparr>Config.GrantType := g, Config.Username := u, UseForm := f\<rparr>) # rest) =
     no_env_Config\<lparr>Config.GrantType := g, Config.Username := u, UseForm := f\<rparr>" .
qed

lemma getAccessToken_json_no_env:
  "getAccessToken (answering r m)
      \<lparr>Config = no_env_Config\<lparr>Config.GrantType := g, Config.Username := u\<rparr>, AccessToken = []\<rparr> =
   (let c = no_env_Config\<lparr>Config.GrantType := g, Config.Username := u, Config.Scope := ''openid''\<rparr>;
        s = \<lparr>Config = c, AccessToken = []\<rparr>
    in if g \<noteq> ''client_credentials'' \<and> g \<noteq> ''password'' \<and> u \<noteq> []
       then (s, Inl (errors_New ''password cannot be empty''), [])
       else
         (let req = inferred_request\<lparr>Body :=
               (if g = ''password''
                then [(''grant_type'', ''password''), (''scope'', ''openid''),
                      (''username'', u), (''password'', [])]
                else if g = ''client_credentials''
                then [(''grant_type'', ''client_credentials''), (''scope'', ''openid'')]
                else [(''grant_type'', ''client_credentials'')])\<rparr>
          in (s,
              (case r of
                 Inl err \<Rightarrow> Inl (errors_Wrap err ''do failed'')
               | Inr (resp, body) \<Rightarrow> read_response (answering r m) resp body),
              [DoCall None req])))"
  by (simp add: getAccessToken_def exchange_def build_payload_def explicit_payload_def
      default_scope_def http_NewRequest_def json_Marshal_def ApiEndpoint_def fmt_d_def
      answering_def inferred_request_def no_env_Config_def digits.simps [of 3] Let_def
      split: sum.splits)

lemma no_env_Config_same: "no_env_Config\<lparr>Config.GrantType := [], Config.Username := []\<rparr> = no_env_Config"
  by (simp add: no_env_Config_def)

lemma default_session_run:
  "getAccessToken (answering r m) default_session =
     (\<lparr>Config = no_env_Config\<lparr>Config.Scope := ''openid''\<rparr>, AccessToken = []\<rparr>,
      (case r of
         Inl err \<Rightarrow> Inl (errors_Wrap err ''do failed'')
       | Inr (resp, body) \<Rightarrow> read_response (answering r m) resp body),
      [DoCall None inferred_request])"
  using getAccessToken_json_no_env [where r = r and m = m and g = "[]" and u = "[]"]
  by (simp add: default_session_def no_env_Config_same Let_def no_env_Config_def inferred_request_def)

lemma explicit_session_run:
  "snd (snd (getAccessToken (answering r m) explicit_session)) = [DoCall None explicit_request]"
  using getAccessToken_json_no_env [where r = r and m = m and g = "''client_credentials''" and u = "[]"]
  by (simp add: explicit_session_def Let_def no_env_Config_def explicit_request_def)

lemma default_session_exchange:
  "exchange (answering r m) (ApiEndpoint default_session @ ''/access_token'')
      (default_scope (Config default_session)) =
     ((case r of Inl err \<Rightarrow> Inl (errors_Wrap err ''do failed'') | Inr rb \<Rightarrow> Inr rb),
      [DoCall None inferred_request])"
  by (simp add: exchange_def build_payload_def explicit_payload_def
      default_scope_def http_NewRequest_def json_Marshal_def ApiEndpoint_def fmt_d_def
      answering_def inferred_request_def no_env_Config_def default_session_def
      digits.simps [of 3] Let_def split: sum.splits)

lemma resolve_override_of:
  "resolve (answering r m) (Some (override_of g u f) # rest) =
     no_env_Config\<lparr>Config.GrantType := g, Config.Username := u, UseForm := f\<rparr>"
  by (simp add: override_of_def resolve_no_env)

lemma getAccessToken_form_no_env:
  "getAccessToken (answering r m)
      \<lparr>Config = no_env_Config\<lparr>Config.GrantType := [], Config.Username := u, UseForm := True\<rparr>,
       AccessToken = []\<rparr> =
   (\<lparr>Config = no_env_Config\<lparr>Config.GrantType := [], Config.Username := u, UseForm := True,
                              Config.Scope := ''openid''\<rparr>, AccessToken = []\<rparr>,
    (case r of
       Inl err \<Rightarrow> Inl (errors_Wrap err ''do failed'')
     | Inr (resp, body) \<Rightarrow> read_response (answering r m) resp body),
    [PostFormCall ''https://api.mobingi.com/v3/access_token'' []])"
  by (simp add: getAccessToken_def exchange_def build_form_def
      default_scope_def ApiEndpoint_def fmt_d_def
      answering_def no_env_Config_def digits.simps [of 3] Let_def
      split: sum.splits)

lemma read_response_world_ok:
  "read_response world_ok \<lparr>Status = ''200 OK'', StatusCode = 200\<rparr> body = Inr ''X''"
  by (simp add: read_response_def go_quo_def parse_token_def world_ok_def answering_def Sprintf_s_def)

theorem json_scope_only_for_explicit_grant_witness:
  "snd (snd (getAccessToken world_ok default_session)) = [DoCall None inferred_request] \<and>
   ''scope'' \<notin> fst ` set (Body inferred_request) \<and>
   snd (snd (getAccessToken world_ok explicit_session)) = [DoCall None explicit_request] \<and>
   (''scope'', ''openid'') \<in> set (Body explicit_request)"
proof -
  have a: "snd (snd (getAccessToken world_ok default_session)) = [DoCall None inferred_request]"
    by (simp add: world_ok_def default_session_run)
  have b: "snd (snd (getAccessToken world_ok explicit_session)) = [DoCall None explicit_request]"
    by (simp add: world_ok_def explicit_session_run)
  have ja: "\<not> UseForm (Config default_session)" and ga: "Config.GrantType (Config default_session) = []"
    by (simp_all add: default_session_def no_env_Config_def)
  have jb: "\<not> UseForm (Config explicit_session)"
    and gb: "Config.GrantType (Config explicit_session) = ''client_credentials''"
    by (simp_all add: explicit_session_def no_env_Config_def)
  have sb: "Config.Scope (Config (fst (getAccessToken world_ok explicit_session))) = ''openid''"
    by (simp add: getAccessToken_session explicit_session_def default_scope_def no_env_Config_def)
  show ?thesis
    using json_scope_only_for_explicit_grant [OF ja a] json_scope_only_for_explicit_grant [OF jb b]
      a b ga gb sb
    by simp
qed

section \<open>The answer of the token endpoint\<close>

lemma parse_token_not_errors_New: "parse_token w body \<noteq> Inl (errors_New msg)"
  by (simp add: parse_token_def split: sum.splits option.splits)

text \<open>
  Claim C6. Whenever the credential exchange gets a response: if its status code is not
  one of 200 to 299, \<^verbatim>\<open>getAccessToken\<close> fails with an error whose message is the
  status text of the response; if it is, this check does not fail, and the result is
  what reading the token from the body gives.
\<close>

theorem getAccessToken_requires_2xx:
  "exchange w (ApiEndpoint s @ ''/access_token'') (default_scope (Config s)) = (Inr (resp, body), calls) \<Longrightarrow>
   (\<not> (200 \<le> StatusCode resp \<and> StatusCode resp \<le> 299) \<longrightarrow>
      fst (snd (getAccessToken w s)) = Inl (errors_New (Status resp)) \<and>
      Error (errors_New (Status resp)) = Status resp) \<and>
   (200 \<le> StatusCode resp \<and> StatusCode resp \<le> 299 \<longrightarrow>
      fst (snd (getAccessToken w s)) = parse_token w body \<and>
      fst (snd (getAccessToken w s)) \<noteq> Inl (errors_New (Status resp)))"
  by (simp add: getAccessToken_result read_response_def go_quo_100_is_2 parse_token_not_errors_New)

theorem getAccessToken_requires_2xx_witness:
  "fst (snd (getAccessToken world_404 default_session)) = Inl (errors_New ''404 Not Found'') \<and>
   fst (snd (getAccessToken world_ok default_session)) = Inr ''X''"
proof -
  have a: "exchange world_404 (ApiEndpoint default_session @ ''/access_token'')
      (default_scope (Config default_session)) =
      (Inr (\<lparr>Status = ''404 Not Found'', StatusCode = 404\<rparr>, []), [DoCall None inferred_request])"
    by (simp add: world_404_def default_session_exchange)
  have b: "exchange world_ok (ApiEndpoint default_session @ ''/access_token'')
      (default_scope (Config default_session)) =
      (Inr (\<lparr>Status = ''200 OK'', StatusCode = 200\<rparr>, ''{\"access_token\":\"X\"}''),
       [DoCall None inferred_request])"
    by (simp add: world_ok_def default_session_exchange)
  have p: "parse_token world_ok ''{\"access_token\":\"X\"}'' = Inr ''X''"
    by (simp add: parse_token_def world_ok_def answering_def Sprintf_s_def)
  show ?thesis
    using getAccessToken_requires_2xx [OF a] getAccessToken_requires_2xx [OF b] p by simp
qed

text \<open>
  Claim C7, as amended. For a response with a status from 200 to 299 whose body decodes
  to a JSON object: without a member \<^verbatim>\<open>access_token\<close>, \<^verbatim>\<open>getAccessToken\<close> fails with
  the error \<^verbatim>\<open>cannot find access token\<close>; with one, of whatever JSON type, no error is
  returned, and when the value is a JSON string the token is that string.
\<close>

theorem getAccessToken_token_field:
  "exchange w (ApiEndpoint s @ ''/access_token'') (default_scope (Config s)) = (Inr (resp, body), calls) \<Longrightarrow>
   200 \<le> StatusCode resp \<Longrightarrow> StatusCode resp \<le> 299 \<Longrightarrow> Unmarshal w body = Inr m \<Longrightarrow>
   (m ''access_token'' = None \<longrightarrow>
      fst (snd (getAccessToken w s)) = Inl (fmt_Errorf ''cannot find access token'')) \<and>
   (\<forall>t. m ''access_token'' = Some t \<longrightarrow> (\<exists>token. fst (snd (getAccessToken w s)) = Inr token)) \<and>
   (\<forall>str. m ''access_token'' = Some (VString str) \<longrightarrow> fst (snd (getAccessToken w s)) = Inr str)"
  by (simp add: getAccessToken_result read_response_def go_quo_100_is_2 parse_token_def
      Sprintf_s_def)

theorem getAccessToken_token_field_witness:
  "fst (snd (getAccessToken world_ok default_session)) = Inr ''X'' \<and>
   fst (snd (getAccessToken world_nokey default_session)) = Inl (fmt_Errorf ''cannot find access token'')"
proof -
  have a: "Unmarshal world_ok ''{\"access_token\":\"X\"}'' = Inr [''access_token'' \<mapsto> VString ''X'']"
    by (simp add: world_ok_def answering_def)
  have b: "Unmarshal world_nokey ''{}'' = Inr Map.empty"
    by (simp add: world_nokey_def answering_def)
  have xa: "exchange world_ok (ApiEndpoint default_session @ ''/access_token'')
      (default_scope (Config default_session)) =
      (Inr (\<lparr>Status = ''200 OK'', StatusCode = 200\<rparr>, ''{\"access_token\":\"X\"}''),
       [DoCall None inferred_request])"
    by (simp add: world_ok_def default_session_exchange)
  have xb: "exchange world_nokey (ApiEndpoint default_session @ ''/access_token'')
      (default_scope (Config default_session)) =
      (Inr (\<lparr>Status = ''200 OK'', StatusCode = 200\<rparr>, ''{}''), [DoCall None inferred_request])"
    by (simp add: world_nokey_def default_session_exchange)
  show ?thesis
    using getAccessToken_token_field [OF xa _ _ a] getAccessToken_token_field [OF xb _ _ b]
    by simp
qed

text \<open>
  Claim C7 as it was stated says the token is the string representation of the value
  whatever its JSON type. For the JSON boolean \<^verbatim>\<open>true\<close> the token is the bad-verb text
  \<^verbatim>\<open>%!s(bool=true)\<close> of \<^verbatim>\<open>fmt\<close>, not \<^verbatim>\<open>true\<close>.
\<close>

theorem token_of_json_true_counterexample:
  "Unmarshal world_true ''{\"access_token\":true}'' = Inr [''access_token'' \<mapsto> VBool True] \<and>
   fst (snd (getAccessToken world_true default_session)) = Inr ''%!s(bool=true)'' \<and>
   fst (snd (getAccessToken world_true default_session)) \<noteq> Inr ''true''"
  by (simp add: world_true_def default_session_run read_response_def go_quo_def parse_token_def)
    (simp add: answering_def Sprintf_s_def)

section \<open>Failure of the exchange in \<open>New\<close>\<close>

lemma New_exchange:
  "Config.AccessToken (resolve w cnf) = [] \<Longrightarrow>
   New w cnf =
     (case getAccessToken w \<lparr>Config = resolve w cnf, AccessToken = []\<rparr> of
        (s', Inl err, calls) \<Rightarrow> (s', Some (errors_Wrap err ''get access token failed''), calls)
      | (s', Inr token, calls) \<Rightarrow> (s'\<lparr>Session.AccessToken := token\<rparr>, None, calls))"
  by (simp add: New_def Let_def)

text \<open>
  Claim C5, as amended. When the resolved configuration has no access token and the
  credential exchange fails, in whatever way, \<^verbatim>\<open>New\<close> returns a session (never nil)
  whose token is empty and whose configuration is the resolved one with an empty scope
  replaced by \<^verbatim>\<open>openid\<close>, together with the error of the exchange wrapped under the
  label \<^verbatim>\<open>get access token failed\<close>.
\<close>

theorem New_exchange_failure:
  "Config.AccessToken (resolve w cnf) = [] \<Longrightarrow>
   getAccessToken w \<lparr>Config = resolve w cnf, AccessToken = []\<rparr> = (s', Inl err, calls) \<Longrightarrow>
   New w cnf =
     (\<lparr>Config = (resolve w cnf)\<lparr>Config.Scope :=
          (if Config.Scope (resolve w cnf) = [] then ''openid'' else Config.Scope (resolve w cnf))\<rparr>,
       AccessToken = []\<rparr>,
      Some (errors_Wrap err ''get access token failed''), calls) \<and>
   Error (errors_Wrap err ''get access token failed'') = ''get access token failed: '' @ Error err"
proof -
  assume tok: "Config.AccessToken (resolve w cnf) = []"
    and run: "getAccessToken w \<lparr>Config = resolve w cnf, AccessToken = []\<rparr> = (s', Inl err, calls)"
  from run have "s' = \<lparr>Config = default_scope (resolve w cnf), AccessToken = []\<rparr>"
    using getAccessToken_session [of w "\<lparr>Config = resolve w cnf, AccessToken = []\<rparr>"] by simp
  then have "s' = \<lparr>Config = (resolve w cnf)\<lparr>Config.Scope :=
          (if Config.Scope (resolve w cnf) = [] then ''openid'' else Config.Scope (resolve w cnf))\<rparr>,
       AccessToken = []\<rparr>"
    by (simp add: default_scope_def)
  with run show ?thesis
    by (simp add: New_exchange [OF tok])
qed

theorem New_exchange_failure_witness:
  "New world_down [] =
     (\<lparr>Config = no_env_Config\<lparr>Config.Scope := ''openid''\<rparr>, AccessToken = []\<rparr>,
      Some (errors_Wrap (errors_Wrap (External ''connection refused'') ''do failed'')
              ''get access token failed''),
      [DoCall None inferred_request]) \<and>
   Error (errors_Wrap (errors_Wrap (External ''connection refused'') ''do failed'')
            ''get access token failed'') =
     ''get access token failed: do failed: connection refused''"
proof -
  have r: "resolve world_down [] = no_env_Config"
    by (simp add: world_down_def resolve_no_env)
  have tok: "Config.AccessToken (resolve world_down []) = []"
    by (simp add: r no_env_Config_def)
  have run: "getAccessToken world_down \<lparr>Config = resolve world_down [], AccessToken = []\<rparr> =
      (\<lparr>Config = no_env_Config\<lparr>Config.Scope := ''openid''\<rparr>, AccessToken = []\<rparr>,
       Inl (errors_Wrap (External ''connection refused'') ''do failed''),
       [DoCall None inferred_request])"
    unfolding r by (simp add: world_down_def default_session_run [unfolded default_session_def])
  show ?thesis
    using New_exchange_failure [OF tok run] by (simp add: r no_env_Config_def)
qed

lemma New_world_down:
  "New world_down [] =
     (\<lparr>Config = no_env_Config\<lparr>Config.Scope := ''openid''\<rparr>, AccessToken = []\<rparr>,
      Some (errors_Wrap (errors_Wrap (External ''connection refused'') ''do failed'')
              ''get access token failed''),
      [DoCall None inferred_request])"
proof -
  have "Config.AccessToken (resolve world_down []) = []"
    by (simp add: world_down_def resolve_no_env no_env_Config_def)
  from New_exchange [OF this] show ?thesis
    by (simp add: world_down_def resolve_no_env default_session_run [unfolded default_session_def])
qed

text \<open>
  Claim C5 as it was stated says the configuration of that session is the resolved
  configuration. With no override, no environment and no network, the exchange fails,
  the resolved scope is empty and the scope of the session's configuration is
  \<^verbatim>\<open>openid\<close>.
\<close>

theorem New_failure_config_counterexample:
  "fst (snd (New world_down [])) =
     Some (errors_Wrap (errors_Wrap (External ''connection refused'') ''do failed'')
             ''get access token failed'') \<and>
   Config.Scope (resolve world_down []) = [] \<and>
   Config.Scope (Config (fst (New world_down []))) = ''openid'' \<and>
   Config (fst (New world_down [])) \<noteq> resolve world_down []"
proof -
  have r: "resolve world_down [] = no_env_Config"
    by (simp add: world_down_def resolve_no_env)
  have "Config.Scope (Config (fst (New world_down []))) \<noteq> Config.Scope (resolve world_down [])"
    by (simp add: New_world_down r) (simp add: no_env_Config_def)
  then have "Config (fst (New world_down [])) \<noteq> resolve world_down []"
    by auto
  then show ?thesis
    by (simp add: New_world_down) (simp add: r no_env_Config_def)
qed

section \<open>An empty password\<close>

text \<open>
  Claim C1 says that a configuration of the password grant, given or inferred, with a
  user name and no password makes \<^verbatim>\<open>New\<close> fail with \<^verbatim>\<open>password cannot be empty\<close>
  before any request. The source tests the password only where it infers the grant on
  the JSON path. With the grant type \<^verbatim>\<open>password\<close> given, the user name \<^verbatim>\<open>u\<close> and no
  password, \<^verbatim>\<open>New\<close> posts a payload whose password is empty and adopts the token of the
  answer; on the form path, with the user name \<^verbatim>\<open>u\<close> alone, it posts an empty form.
\<close>

theorem New_sends_empty_password:
  "New world_ok [Some (override_of ''password'' ''u'' False)] =
     (\<lparr>Config = no_env_Config\<lparr>Config.GrantType := ''password'', Config.Username := ''u'',
                                Config.Scope := ''openid''\<rparr>,
       AccessToken = ''X''\<rparr>,
      None, [DoCall None password_request]) \<and>
   New world_ok [Some (override_of [] ''u'' True)] =
     (\<lparr>Config = no_env_Config\<lparr>Config.Username := ''u'', UseForm := True, Config.Scope := ''openid''\<rparr>,
       AccessToken = ''X''\<rparr>,
      None, [PostFormCall ''https://api.mobingi.com/v3/access_token'' []])"
proof -
  have r1: "resolve world_ok [Some (override_of ''password'' ''u'' False)] =
      no_env_Config\<lparr>Config.GrantType := ''password'', Config.Username := ''u''\<rparr>"
    unfolding world_ok_def resolve_override_of by (simp add: no_env_Config_def)
  have r2: "resolve world_ok [Some (override_of [] ''u'' True)] =
      no_env_Config\<lparr>Config.GrantType := [], Config.Username := ''u'', UseForm := True\<rparr>"
    unfolding world_ok_def resolve_override_of by simp
  have t1: "Config.AccessToken (resolve world_ok [Some (override_of ''password'' ''u'' False)]) = []"
    and t2: "Config.AccessToken (resolve world_ok [Some (override_of [] ''u'' True)]) = []"
    by (simp_all add: r1 r2 no_env_Config_def)
  have g1: "getAccessToken world_ok
      \<lparr>Config = no_env_Config\<lparr>Config.GrantType := ''password'', Config.Username := ''u''\<rparr>,
       AccessToken = []\<rparr> =
     (\<lparr>Config = no_env_Config\<lparr>Config.GrantType := ''password'', Config.Username := ''u'',
                                Config.Scope := ''openid''\<rparr>, AccessToken = []\<rparr>,
      Inr ''X'', [DoCall None password_request])"
    using getAccessToken_json_no_env [where r = "Inr (\<lparr>Status = ''200 OK'', StatusCode = 200\<rparr>, ''{\"access_token\":\"X\"}'')"
        and m = "[''access_token'' \<mapsto> VString ''X'']" and g = "''password''" and u = "''u''"]
      read_response_world_ok
    by (simp add: world_ok_def [symmetric] password_request_def Let_def)
  have g2: "getAccessToken world_ok
      \<lparr>Config = no_env_Config\<lparr>Config.GrantType := [], Config.Username := ''u'', UseForm := True\<rparr>,
       AccessToken = []\<rparr> =
     (\<lparr>Config = no_env_Config\<lparr>Config.GrantType := [], Config.Username := ''u'', UseForm := True,
                                Config.Scope := ''openid''\<rparr>, AccessToken = []\<rparr>,
      Inr ''X'', [PostFormCall ''https://api.mobingi.com/v3/access_token'' []])"
    using getAccessToken_form_no_env [where r = "Inr (\<lparr>Status = ''200 OK'', StatusCode = 200\<rparr>, ''{\"access_token\":\"X\"}'')"
        and m = "[''access_token'' \<mapsto> VString ''X'']" and u = "''u''"]
      read_response_world_ok
    by (simp add: world_ok_def [symmetric])
  show ?thesis
    unfolding New_exchange [OF t1] New_exchange [OF t2] r1 r2 g1 g2
    by (simp add: no_env_Config_def)
qed

text \<open>
  Where the source does test the password: on the JSON path, with a grant type that is
  neither \<^verbatim>\<open>client_credentials\<close> nor \<^verbatim>\<open>password\<close>, a user name and no password,
  \<^verbatim>\<open>New\<close> fails with \<^verbatim>\<open>password cannot be empty\<close> under its label and makes no network
  call.
\<close>

theorem inferred_grant_requires_password:
  "resolve w cnf = c \<Longrightarrow> Config.AccessToken c = [] \<Longrightarrow> \<not> UseForm c \<Longrightarrow>
   Config.GrantType c \<noteq> ''client_credentials'' \<Longrightarrow> Config.GrantType c \<noteq> ''password'' \<Longrightarrow>
   Config.Username c \<noteq> [] \<Longrightarrow> Config.Password c = [] \<Longrightarrow>
   New w cnf =
     (\<lparr>Config = default_scope c, AccessToken = []\<rparr>,
      Some (errors_Wrap (errors_New ''password cannot be empty'') ''get access token failed''), []) \<and>
   Error (errors_Wrap (errors_New ''password cannot be empty'') ''get access token failed'') =
     ''get access token failed: password cannot be empty''"
proof -
  assume c: "resolve w cnf = c" and tok: "Config.AccessToken c = []" and json: "\<not> UseForm c"
    and g: "Config.GrantType c \<noteq> ''client_credentials''" "Config.GrantType c \<noteq> ''password''"
    and u: "Config.Username c \<noteq> []" and p: "Config.Password c = []"
  have "build_payload (default_scope c) = Inl (errors_New ''password cannot be empty'')"
    using g u p by (simp add: build_payload_def explicit_payload_def default_scope_def)
  then have "getAccessToken w \<lparr>Config = c, AccessToken = []\<rparr> =
      (\<lparr>Config = default_scope c, AccessToken = []\<rparr>,
       Inl (errors_New ''password cannot be empty''), [])"
    using json by (simp add: getAccessToken_def exchange_def Let_def default_scope_fields)
  then show ?thesis
    using tok by (simp add: New_exchange c)
qed

theorem inferred_grant_requires_password_witness:
  "New world_ok [Some (override_of [] ''u'' False)] =
     (\<lparr>Config = no_env_Config\<lparr>Config.Username := ''u'', Config.Scope := ''openid''\<rparr>, AccessToken = []\<rparr>,
      Some (errors_Wrap (errors_New ''password cannot be empty'') ''get access token failed''), [])"
proof -
  have r: "resolve world_ok [Some (override_of [] ''u'' False)] = no_env_Config\<lparr>Config.Username := ''u''\<rparr>"
    unfolding world_ok_def resolve_override_of by (simp add: no_env_Config_def)
  show ?thesis
    using inferred_grant_requires_password [OF r]
    by (simp add: no_env_Config_def default_scope_def)
qed

section \<open>Further properties of \<open>New\<close>\<close>

lemma exchange_calls_le_1: "length (snd (exchange w url c)) \<le> 1"
  by (simp add: exchange_def Let_def split: sum.splits)

text \<open>One call of \<^verbatim>\<open>New\<close> makes at most one network call.\<close>

theorem New_at_most_one_call: "length (snd (snd (New w cnf))) \<le> 1"
proof (cases "Config.AccessToken (resolve w cnf) = []")
  case True
  obtain s1 r1 c1 where g: "getAccessToken w \<lparr>Config = resolve w cnf, AccessToken = []\<rparr> = (s1, r1, c1)"
    by (cases "getAccessToken w \<lparr>Config = resolve w cnf, AccessToken = []\<rparr>")
  then have "c1 = snd (exchange w (ApiEndpoint \<lparr>Config = resolve w cnf, AccessToken = []\<rparr> @ ''/access_token'')
      (default_scope (resolve w cnf)))"
    using getAccessToken_calls [of w "\<lparr>Config = resolve w cnf, AccessToken = []\<rparr>"] by simp
  then have "length c1 \<le> 1" using exchange_calls_le_1 by simp
  with g True show ?thesis
    by (cases r1) (simp_all add: New_exchange)
next
  case False
  then show ?thesis by (simp add: New_def Let_def)
qed

text \<open>
  When the exchange is answered with a status from 200 to 299 and a body whose
  \<^verbatim>\<open>access_token\<close> is the JSON string \<^verbatim>\<open>X\<close>, the session \<^verbatim>\<open>New\<close> returns has the token
  \<^verbatim>\<open>X\<close>, and there is no error.
\<close>

theorem New_adopts_string_token:
  "Config.AccessToken (resolve w cnf) = [] \<Longrightarrow>
   exchange w (ApiEndpoint \<lparr>Config = resolve w cnf, AccessToken = []\<rparr> @ ''/access_token'')
      (default_scope (resolve w cnf)) = (Inr (resp, body), calls) \<Longrightarrow>
   200 \<le> StatusCode resp \<Longrightarrow> StatusCode resp \<le> 299 \<Longrightarrow>
   Unmarshal w body = Inr m \<Longrightarrow> m ''access_token'' = Some (VString X) \<Longrightarrow>
   New w cnf = (\<lparr>Config = default_scope (resolve w cnf), AccessToken = X\<rparr>, None, calls)"
  by (simp add: New_exchange getAccessToken_def Let_def read_response_def go_quo_100_is_2
      parse_token_def Sprintf_s_def)

theorem New_adopts_string_token_witness:
  "New world_ok [] =
     (\<lparr>Config = no_env_Config\<lparr>Config.Scope := ''openid''\<rparr>, AccessToken = ''X''\<rparr>, None,
      [DoCall None inferred_request])"
proof -
  have r: "resolve world_ok [] = no_env_Config"
    by (simp add: world_ok_def resolve_no_env)
  have t: "Config.AccessToken (resolve world_ok []) = []"
    by (simp add: r no_env_Config_def)
  have x: "exchange world_ok (ApiEndpoint \<lparr>Config = resolve world_ok [], AccessToken = []\<rparr> @ ''/access_token'')
      (default_scope (resolve world_ok [])) =
      (Inr (\<lparr>Status = ''200 OK'', StatusCode = 200\<rparr>, ''{\"access_token\":\"X\"}''),
       [DoCall None inferred_request])"
    unfolding r using default_session_exchange [of "Inr (\<lparr>Status = ''200 OK'', StatusCode = 200\<rparr>, ''{\"access_token\":\"X\"}'')" "[''access_token'' \<mapsto> VString ''X'']"]
    by (simp add: world_ok_def default_session_def)
  have u: "Unmarshal world_ok ''{\"access_token\":\"X\"}'' = Inr [''access_token'' \<mapsto> VString ''X'']"
    by (simp add: world_ok_def answering_def)
  show ?thesis
    using New_adopts_string_token [OF t x _ _ u] by (simp add: r default_scope_def no_env_Config_def)
qed

end
